theory Spec2Isabelle
  imports Main
begin

section \<open>Values crossing the boundary between the components and the database\<close>

text \<open>
  The JavaScript values that the parameter \<open>text\<close> of \<open>add\<close> can hold: \<open>null\<close> (the
  initial \<open>this.state.text\<close>), \<open>undefined\<close> (the argument left out) and a string.
\<close>

datatype jsval = JNull | JUndefined | JStr string

text \<open>What the column \<open>value text\<close> of a row holds.\<close>

datatype sqlval = SqlNull | SqlText string

text \<open>
  Binding an element of the argument array to a \<open>?\<close> placeholder. A string is bound as
  text; \<open>null\<close> and \<open>undefined\<close> both reach the engine as SQL NULL.
\<close>

fun bind_arg :: "jsval \<Rightarrow> sqlval" where
  "bind_arg JNull = SqlNull"
| "bind_arg JUndefined = SqlNull"
| "bind_arg (JStr s) = SqlText s"

text \<open>
  A row of the table
  \<^verbatim>\<open>items (id integer primary key not null, done int, value text)\<close>,
  which is also the object \<open>{id, done, value}\<close> that a select hands to the components.
\<close>

record item =
  item_id :: int
  item_done :: int
  item_value :: sqlval

text \<open>
  The contents of the database file \<open>db1.db\<close>: \<open>None\<close> while the table \<open>items\<close> does
  not exist, otherwise its rows in the order the engine scans them.
\<close>

type_synonym database = "item list option"

datatype sql_error = NoSuchTable

section \<open>The five SQL statements of the application\<close>

datatype statement =
    CreateTableIfNotExists
  | InsertItem jsval
  | SelectAll
  | SelectWhereDone int
  | UpdateDone int
  | DeleteItem int

text \<open>
  The insert names no \<open>id\<close>. The column is an \<open>integer primary key\<close> declared without
  \<open>autoincrement\<close>, so the engine assigns one more than the largest id in the table,
  and 1 in an empty table. Ids are unbounded integers here; the engine's 64-bit limit
  is out of reach of a table filled one insert at a time.
\<close>

definition next_rowid :: "item list \<Rightarrow> int" where
  "next_rowid rows = (if rows = [] then 1 else Max (set (map item_id rows)) + 1)"

text \<open>
  \<open>executeSql\<close> gives the rows of the result set and the database after the statement,
  or the error of a statement that names a table that does not exist.
  \<^item> \<^verbatim>\<open>create table if not exists items (...)\<close>
  \<^item> \<^verbatim>\<open>insert into items (done, value) values (0, ?)\<close>
  \<^item> \<^verbatim>\<open>select * from items\<close>
  \<^item> \<^verbatim>\<open>select * from items where done = ?\<close>
  \<^item> \<^verbatim>\<open>update items set done = 1 where id = ?\<close>
  \<^item> \<^verbatim>\<open>delete from items where id = ?\<close>
\<close>

fun executeSql :: "statement \<Rightarrow> database \<Rightarrow> sql_error + (item list \<times> database)" where
  "executeSql CreateTableIfNotExists None = Inr ([], Some [])"
| "executeSql CreateTableIfNotExists (Some rows) = Inr ([], Some rows)"
| "executeSql _ None = Inl NoSuchTable"
| "executeSql (InsertItem v) (Some rows) =
     Inr ([], Some (rows @ [\<lparr>item_id = next_rowid rows, item_done = 0, item_value = bind_arg v\<rparr>]))"
| "executeSql SelectAll (Some rows) = Inr (rows, Some rows)"
| "executeSql (SelectWhereDone d) (Some rows) =
     Inr (filter (\<lambda>r. item_done r = d) rows, Some rows)"
| "executeSql (UpdateDone i) (Some rows) =
     Inr ([], Some (map (\<lambda>r. if item_id r = i then r\<lparr>item_done := 1\<rparr> else r) rows))"
| "executeSql (DeleteItem i) (Some rows) =
     Inr ([], Some (filter (\<lambda>r. item_id r \<noteq> i) rows))"

section \<open>The application state\<close>

datatype platform = Web | Native

text \<open>
  The global \<open>db\<close>: on the web a stub whose \<open>transaction\<close> never calls anything,
  otherwise the opened database.
\<close>

datatype handle = WebStub | Opened

definition openDatabase :: "platform \<Rightarrow> handle" where
  "openDatabase os = (if os = Web then WebStub else Opened)"

datatype log_entry = LogError sql_error | LogRows "item list"

text \<open>
  \<open>db\<close> is the global handle and \<open>disk\<close> the file behind it; \<open>todo_items\<close> and
  \<open>done_items\<close> are \<open>state.items\<close> of the two \<open>Items\<close> components (\<open>this.todo\<close> with
  \<open>done={false}\<close>, \<open>this.done\<close> with \<open>done={true}\<close>), \<open>None\<close> for the initial \<open>null\<close>;
  \<open>console\<close> collects what \<open>console.log\<close> prints.
\<close>

record app =
  db :: handle
  disk :: database
  todo_items :: "item list option"
  done_items :: "item list option"
  console :: "log_entry list"

definition console_log :: "log_entry \<Rightarrow> app \<Rightarrow> app" where
  "console_log e a = a\<lparr>console := console a @ [e]\<rparr>"

definition launch :: "platform \<Rightarrow> app" where
  "launch os = \<lparr>db = openDatabase os, disk = None, todo_items = None, done_items = None,
     console = []\<rparr>"

text \<open>
  \<open>db.transaction(callback, errorCallback, successCallback)\<close>: the statements of
  \<open>callback\<close> run in order; when one fails the transaction is rolled back and
  \<open>errorCallback\<close> gets the error, otherwise \<open>successCallback\<close> runs on the committed
  state. The web stub ignores all three.
\<close>

definition transaction ::
  "handle \<Rightarrow> (app \<Rightarrow> sql_error + app) \<Rightarrow> (sql_error \<Rightarrow> app \<Rightarrow> app) \<Rightarrow> (app \<Rightarrow> app) \<Rightarrow> app \<Rightarrow> app" where
  "transaction h callback errorCallback successCallback a =
     (case h of
        WebStub \<Rightarrow> a
      | Opened \<Rightarrow>
          (case callback a of
             Inl err \<Rightarrow> errorCallback err a
           | Inr a' \<Rightarrow> successCallback a'))"

text \<open>\<open>tx.executeSql(sql, args, callback)\<close> inside a transaction.\<close>

definition tx_executeSql :: "statement \<Rightarrow> (item list \<Rightarrow> app \<Rightarrow> app) \<Rightarrow> app \<Rightarrow> sql_error + app" where
  "tx_executeSql s callback a =
     (case executeSql s (disk a) of
        Inl err \<Rightarrow> Inl err
      | Inr (rows, d) \<Rightarrow> Inr (callback rows (a\<lparr>disk := d\<rparr>)))"

section \<open>Items.js\<close>

definition setItems :: "bool \<Rightarrow> item list \<Rightarrow> app \<Rightarrow> app" where
  "setItems isDone items a =
     (if isDone then a\<lparr>done_items := Some items\<rparr> else a\<lparr>todo_items := Some items\<rparr>)"

text \<open>
  \<open>Items.update\<close> of the component whose \<open>props.done\<close> is \<open>isDone\<close>. The transaction
  has no error callback: a failed select leaves \<open>state.items\<close> as it was.
\<close>

definition Items_update :: "bool \<Rightarrow> app \<Rightarrow> app" where
  "Items_update isDone a =
     transaction (db a)
       (tx_executeSql (SelectWhereDone (if isDone then 1 else 0)) (setItems isDone))
       (\<lambda>err a. a)
       (\<lambda>a. a)
       a"

section \<open>App.js\<close>

text \<open>
  \<open>App.componentDidMount\<close>. Both error callbacks print the error; the statement cannot
  fail here.
\<close>

definition componentDidMount :: "app \<Rightarrow> app" where
  "componentDidMount a =
     transaction (db a)
       (tx_executeSql CreateTableIfNotExists (\<lambda>rows a. a))
       (\<lambda>err. console_log (LogError err))
       (\<lambda>a. a)
       a"

text \<open>\<open>App.update\<close>: \<open>this.todo.update()\<close>, then \<open>this.done.update()\<close>.\<close>

definition App_update :: "app \<Rightarrow> app" where
  "App_update a = Items_update True (Items_update False a)"

text \<open>
  \<open>App.add\<close>. The early \<open>return false\<close> is the first branch; nobody reads the value
  returned.
\<close>

definition add :: "jsval \<Rightarrow> app \<Rightarrow> app" where
  "add text a =
     (if text = JNull \<or> text = JStr [] then a
      else
        transaction (db a)
          (\<lambda>a. case tx_executeSql (InsertItem text) (\<lambda>rows a. a) a of
                 Inl err \<Rightarrow> Inl err
               | Inr a1 \<Rightarrow> tx_executeSql SelectAll (\<lambda>rows. console_log (LogRows rows)) a1)
          (\<lambda>err. console_log (LogError err))
          App_update
          a)"

text \<open>The \<open>onPress\<close> of the list of pending items.\<close>

definition onPress_todo :: "int \<Rightarrow> app \<Rightarrow> app" where
  "onPress_todo i a =
     transaction (db a)
       (tx_executeSql (UpdateDone i) (\<lambda>rows a. a))
       (\<lambda>err. console_log (LogError err))
       App_update
       a"

text \<open>The \<open>onPress\<close> of the list of completed items.\<close>

definition onPress_done :: "int \<Rightarrow> app \<Rightarrow> app" where
  "onPress_done i a =
     transaction (db a)
       (tx_executeSql (DeleteItem i) (\<lambda>rows a. a))
       (\<lambda>err. console_log (LogError err))
       App_update
       a"

section \<open>Sequences of operations\<close>

text \<open>
  The store operations by the names the specification gives them: create is \<open>add\<close>,
  listByStatus is \<open>Items.update\<close>, markDone and delete are the two \<open>onPress\<close> handlers.
\<close>

datatype operation = Create jsval | ListByStatus bool | MarkDone int | Delete int

fun perform :: "operation \<Rightarrow> app \<Rightarrow> app" where
  "perform (Create v) a = add v a"
| "perform (ListByStatus b) a = Items_update b a"
| "perform (MarkDone i) a = onPress_todo i a"
| "perform (Delete i) a = onPress_done i a"

definition run :: "operation list \<Rightarrow> app \<Rightarrow> app" where
  "run ops a = fold perform ops a"

text \<open>The application on a device, right after the table has been created.\<close>

definition empty_store :: app where
  "empty_store = componentDidMount (launch Native)"

section \<open>The text input and the events of the screen\<close>

text \<open>
  \<open>this.state.text\<close> is \<open>null\<close> in the constructor, the string handed to
  \<open>onChangeText\<close> while the user types, and \<open>null\<close> again after \<open>onSubmitEditing\<close>,
  which first calls \<open>this.add(this.state.text)\<close>; this is the only call of \<open>add\<close>. The
  state of the screen is the pair of \<open>this.state.text\<close> and the rest of the
  application. Pressing an item calls the \<open>onPress\<close> of its list with the id of the item.
\<close>

datatype event = OnChangeText string | OnSubmitEditing | OnPressTodo int | OnPressDone int

definition setText :: "jsval \<Rightarrow> jsval \<times> app \<Rightarrow> jsval \<times> app" where
  "setText t st = (t, snd st)"

fun dispatch :: "event \<Rightarrow> jsval \<times> app \<Rightarrow> jsval \<times> app" where
  "dispatch (OnChangeText s) st = setText (JStr s) st"
| "dispatch OnSubmitEditing st = setText JNull (fst st, add (fst st) (snd st))"
| "dispatch (OnPressTodo i) st = (fst st, onPress_todo i (snd st))"
| "dispatch (OnPressDone i) st = (fst st, onPress_done i (snd st))"

definition interact :: "event list \<Rightarrow> jsval \<times> app \<Rightarrow> jsval \<times> app" where
  "interact evs st = fold dispatch evs st"

definition started :: "jsval \<times> app" where
  "started = (JNull, empty_store)"

section \<open>The store invariant\<close>

text \<open>The rows in the file; none while the table does not exist.\<close>

definition stored :: "app \<Rightarrow> item list" where
  "stored a = (case disk a of None \<Rightarrow> [] | Some rows \<Rightarrow> rows)"

fun nonempty_text :: "sqlval \<Rightarrow> bool" where
  "nonempty_text SqlNull = False"
| "nonempty_text (SqlText s) = (s \<noteq> [])"

definition unique_ids :: "app \<Rightarrow> bool" where
  "unique_ids a = distinct (map item_id (stored a))"

definition done_is_boolean :: "app \<Rightarrow> bool" where
  "done_is_boolean a = list_all (\<lambda>r. item_done r = 0 \<or> item_done r = 1) (stored a)"

definition values_nonempty :: "app \<Rightarrow> bool" where
  "values_nonempty a = list_all (\<lambda>r. nonempty_text (item_value r)) (stored a)"

definition store_invariant :: "app \<Rightarrow> bool" where
  "store_invariant a = (unique_ids a \<and> done_is_boolean a \<and> values_nonempty a)"

section \<open>What each handler does to an opened database\<close>

lemma next_rowid_fresh: "next_rowid rows \<notin> item_id ` set rows"
proof (cases "rows = []")
  case True
  then show ?thesis by simp
next
  case False
  have "x \<le> Max (set (map item_id rows))" if "x \<in> set (map item_id rows)" for x
    using that by (intro Max_ge) auto
  then have "\<forall>x \<in> item_id ` set rows. x < next_rowid rows"
    using False by (auto simp: next_rowid_def intro: le_less_trans)
  then show ?thesis by blast
qed

lemma disk_same: "disk a = d \<Longrightarrow> a\<lparr>disk := d\<rparr> = a"
  by (cases a) simp

lemma db_Items_update [simp]: "db (Items_update b a) = db a"
  by (simp add: Items_update_def transaction_def tx_executeSql_def setItems_def
      split: handle.splits sum.splits prod.splits)

lemma disk_Items_update [simp]: "disk (Items_update b a) = disk a"
  by (cases "disk a")
     (auto simp add: Items_update_def transaction_def tx_executeSql_def setItems_def
      split: handle.splits sum.splits prod.splits)

lemma console_Items_update [simp]: "console (Items_update b a) = console a"
  by (cases "disk a")
     (auto simp add: Items_update_def transaction_def tx_executeSql_def setItems_def
      split: handle.splits sum.splits prod.splits)

lemma Items_update_Some:
  "db a = Opened \<Longrightarrow> disk a = Some rows \<Longrightarrow>
   Items_update b a = setItems b (filter (\<lambda>r. item_done r = (if b then 1 else 0)) rows) a"
  by (simp add: Items_update_def transaction_def tx_executeSql_def disk_same)

lemma App_update_Some:
  "db a = Opened \<Longrightarrow> disk a = Some rows \<Longrightarrow>
   App_update a = a\<lparr>todo_items := Some (filter (\<lambda>r. item_done r = 0) rows),
                    done_items := Some (filter (\<lambda>r. item_done r = 1) rows)\<rparr>"
  by (simp add: App_update_def Items_update_Some setItems_def)

lemma App_update_WebStub: "db a = WebStub \<Longrightarrow> App_update a = a"
  by (simp add: App_update_def Items_update_def transaction_def)

lemma disk_App_update [simp]: "disk (App_update a) = disk a"
  by (simp add: App_update_def)

lemma db_App_update [simp]: "db (App_update a) = db a"
  by (simp add: App_update_def)

lemma console_App_update [simp]: "console (App_update a) = console a"
  by (simp add: App_update_def)

lemma add_Some:
  "db a = Opened \<Longrightarrow> disk a = Some rows \<Longrightarrow> t \<noteq> JNull \<Longrightarrow> t \<noteq> JStr [] \<Longrightarrow>
   add t a =
     App_update (a\<lparr>disk := Some (rows @ [\<lparr>item_id = next_rowid rows, item_done = 0, item_value = bind_arg t\<rparr>]),
        console := console a @ [LogRows (rows @ [\<lparr>item_id = next_rowid rows, item_done = 0, item_value = bind_arg t\<rparr>])]\<rparr>)"
  by (simp add: add_def transaction_def tx_executeSql_def console_log_def)

lemma onPress_todo_Some:
  "db a = Opened \<Longrightarrow> disk a = Some rows \<Longrightarrow>
   onPress_todo i a =
     App_update (a\<lparr>disk := Some (map (\<lambda>r. if item_id r = i then r\<lparr>item_done := 1\<rparr> else r) rows)\<rparr>)"
  by (simp add: onPress_todo_def transaction_def tx_executeSql_def)

lemma onPress_done_Some:
  "db a = Opened \<Longrightarrow> disk a = Some rows \<Longrightarrow>
   onPress_done i a = App_update (a\<lparr>disk := Some (filter (\<lambda>r. item_id r \<noteq> i) rows)\<rparr>)"
  by (simp add: onPress_done_def transaction_def tx_executeSql_def)

lemma empty_store_eq:
  "empty_store = \<lparr>db = Opened, disk = Some [], todo_items = None, done_items = None, console = []\<rparr>"
  by (simp add: empty_store_def componentDidMount_def launch_def openDatabase_def
      transaction_def tx_executeSql_def)

lemma stored_Items_update [simp]: "stored (Items_update b a) = stored a"
  by (simp add: stored_def)

lemma stored_App_update [simp]: "stored (App_update a) = stored a"
  by (simp add: stored_def)

lemma stored_add:
  "stored (add t a) =
     (if t = JNull \<or> t = JStr [] \<or> db a = WebStub \<or> disk a = None then stored a
      else stored a @ [\<lparr>item_id = next_rowid (stored a), item_done = 0, item_value = bind_arg t\<rparr>])"
proof (cases "db a")
  case WebStub
  then show ?thesis by (simp add: add_def transaction_def)
next
  case Opened
  show ?thesis
  proof (cases "disk a")
    case None
    with Opened show ?thesis
      by (simp add: add_def transaction_def tx_executeSql_def console_log_def stored_def)
  next
    case (Some rows)
    with Opened show ?thesis
    proof (cases "t = JNull \<or> t = JStr []")
      case True
      then show ?thesis by (auto simp: add_def)
    next
      case False
      with Opened Some show ?thesis by (simp add: add_Some stored_def)
    qed
  qed
qed

lemma stored_onPress_todo:
  "stored (onPress_todo i a) =
     (if db a = WebStub then stored a
      else map (\<lambda>r. if item_id r = i then r\<lparr>item_done := 1\<rparr> else r) (stored a))"
proof (cases "db a")
  case WebStub
  then show ?thesis by (simp add: onPress_todo_def transaction_def)
next
  case Opened
  show ?thesis
  proof (cases "disk a")
    case None
    with Opened show ?thesis
      by (simp add: onPress_todo_def transaction_def tx_executeSql_def console_log_def stored_def)
  next
    case (Some rows)
    with Opened show ?thesis
      by (simp add: onPress_todo_Some stored_def)
  qed
qed

lemma stored_onPress_done:
  "stored (onPress_done i a) =
     (if db a = WebStub then stored a else filter (\<lambda>r. item_id r \<noteq> i) (stored a))"
proof (cases "db a")
  case WebStub
  then show ?thesis by (simp add: onPress_done_def transaction_def)
next
  case Opened
  show ?thesis
  proof (cases "disk a")
    case None
    with Opened show ?thesis
      by (simp add: onPress_done_def transaction_def tx_executeSql_def console_log_def stored_def)
  next
    case (Some rows)
    with Opened show ?thesis
      by (simp add: onPress_done_Some stored_def)
  qed
qed

lemma map_id_mark:
  "map (item_id \<circ> (\<lambda>r. if item_id r = i then r\<lparr>item_done := 1\<rparr> else r)) rows = map item_id rows"
  by (induction rows) auto

lemma unique_ids_perform: "unique_ids a \<Longrightarrow> unique_ids (perform o' a)"
proof (cases o')
  case (Create t)
  assume "unique_ids a"
  then show ?thesis
    using Create next_rowid_fresh [of "stored a"]
    by (auto simp: unique_ids_def stored_add)
next
  case (ListByStatus b)
  assume "unique_ids a"
  then show ?thesis using ListByStatus by (simp add: unique_ids_def)
next
  case (MarkDone i)
  assume "unique_ids a"
  then show ?thesis using MarkDone by (simp add: unique_ids_def stored_onPress_todo map_id_mark)
next
  case (Delete i)
  assume "unique_ids a"
  then show ?thesis using Delete by (simp add: unique_ids_def stored_onPress_done distinct_map_filter)
qed

lemma done_is_boolean_perform: "done_is_boolean a \<Longrightarrow> done_is_boolean (perform o' a)"
  by (cases o')
     (auto simp: done_is_boolean_def stored_add stored_onPress_todo stored_onPress_done
        list_all_iff)

lemma values_nonempty_perform:
  "values_nonempty a \<Longrightarrow> o' \<noteq> Create JUndefined \<Longrightarrow> values_nonempty (perform o' a)"
proof (cases o')
  case (Create t)
  assume "values_nonempty a" "o' \<noteq> Create JUndefined"
  then show ?thesis using Create
    by (cases t) (auto simp: values_nonempty_def stored_add list_all_iff)
qed (auto simp: values_nonempty_def stored_onPress_todo stored_onPress_done list_all_iff)

lemma run_Nil [simp]: "run [] a = a"
  by (simp add: run_def)

lemma run_snoc [simp]: "run (ops @ [o']) a = perform o' (run ops a)"
  by (simp add: run_def)

lemma stored_empty_store [simp]: "stored empty_store = []"
  by (simp add: empty_store_eq stored_def)

lemma unique_ids_run: "unique_ids (run ops empty_store)"
  by (induction ops rule: rev_induct) (simp_all add: unique_ids_def unique_ids_perform [unfolded unique_ids_def])

lemma done_is_boolean_run: "done_is_boolean (run ops empty_store)"
  by (induction ops rule: rev_induct) (simp_all add: done_is_boolean_perform, simp add: done_is_boolean_def)

lemma values_nonempty_run:
  "Create JUndefined \<notin> set ops \<Longrightarrow> values_nonempty (run ops empty_store)"
proof (induction ops rule: rev_induct)
  case Nil
  show ?case by (simp add: values_nonempty_def)
next
  case (snoc x xs)
  then show ?case by (auto intro: values_nonempty_perform)
qed

lemma same_id_same_row:
  "distinct (map item_id xs) \<Longrightarrow> x \<in> set xs \<Longrightarrow> y \<in> set xs \<Longrightarrow> item_id x = item_id y \<Longrightarrow> x = y"
  by (simp add: distinct_map inj_on_def)

lemma step_keeps_done:
  assumes "unique_ids a" and "r \<in> set (stored a)" and "r' \<in> set (stored (perform o' a))"
    and "item_id r' = item_id r" and "item_done r = 1"
  shows "item_done r' = 1"
proof (cases o')
  case (Create t)
  have "r' \<in> set (stored a)"
  proof (rule ccontr)
    assume "r' \<notin> set (stored a)"
    with assms(3) Create have "item_id r' = next_rowid (stored a)"
      by (simp add: stored_add split: if_splits)
    with assms(2,4) next_rowid_fresh [of "stored a"] show False
      by (metis imageI)
  qed
  with assms(1,2,4) have "r' = r"
    using same_id_same_row [of "stored a" r' r] by (simp add: unique_ids_def)
  with assms(5) show ?thesis by simp
next
  case (ListByStatus b)
  with assms(3) have "r' \<in> set (stored a)" by simp
  with assms(1,2,4) have "r' = r"
    using same_id_same_row [of "stored a" r' r] by (simp add: unique_ids_def)
  with assms(5) show ?thesis by simp
next
  case (MarkDone i)
  show ?thesis
  proof (cases "db a")
    case WebStub
    with assms(3) MarkDone have "r' \<in> set (stored a)" by (simp add: stored_onPress_todo)
    with assms(1,2,4) have "r' = r"
      using same_id_same_row [of "stored a" r' r] by (simp add: unique_ids_def)
    with assms(5) show ?thesis by simp
  next
    case Opened
    with assms(3) MarkDone obtain x where x: "x \<in> set (stored a)"
      and r': "r' = (if item_id x = i then x\<lparr>item_done := 1\<rparr> else x)"
      by (auto simp: stored_onPress_todo)
    from r' have "item_id r' = item_id x" by (simp split: if_splits)
    with assms(4) have "item_id x = item_id r" by simp
    with assms(1,2) x have "x = r"
      using same_id_same_row [of "stored a" x r] by (simp add: unique_ids_def)
    with r' assms(5) show ?thesis by (simp split: if_splits)
  qed
next
  case (Delete i)
  with assms(3) have "r' \<in> set (stored a)"
    by (simp add: stored_onPress_done split: if_splits)
  with assms(1,2,4) have "r' = r"
    using same_id_same_row [of "stored a" r' r] by (simp add: unique_ids_def)
  with assms(5) show ?thesis by simp
qed

lemma step_new_row:
  assumes "r' \<in> set (stored (perform o' a))" and "item_id r' \<notin> item_id ` set (stored a)"
  shows "(\<exists>v. o' = Create v) \<and> item_done r' = 0"
proof (cases o')
  case (Create t)
  from assms(2) have "r' \<notin> set (stored a)" by blast
  with assms(1) Create have "item_done r' = 0"
    by (simp add: stored_add split: if_splits)
  with Create show ?thesis by simp
next
  case (ListByStatus b)
  with assms show ?thesis by auto
next
  case (MarkDone i)
  from assms(2) have "r' \<notin> set (stored a)" by blast
  show ?thesis
  proof (cases "db a")
    case WebStub
    with assms(1) MarkDone \<open>r' \<notin> set (stored a)\<close> show ?thesis
      by (simp add: stored_onPress_todo)
  next
    case Opened
    with assms(1) MarkDone obtain x where x: "x \<in> set (stored a)"
      and r': "r' = (if item_id x = i then x\<lparr>item_done := 1\<rparr> else x)"
      by (auto simp: stored_onPress_todo)
    from r' have "item_id r' = item_id x" by (simp split: if_splits)
    with x assms(2) show ?thesis by (metis imageI)
  qed
next
  case (Delete i)
  from assms(2) have "r' \<notin> set (stored a)" by blast
  with assms(1) Delete show ?thesis
    by (simp add: stored_onPress_done split: if_splits)
qed

lemma db_add [simp]: "db (add t a) = db a"
proof (cases "t = JNull \<or> t = JStr [] \<or> db a = WebStub")
  case True
  then show ?thesis by (auto simp: add_def transaction_def)
next
  case False
  then have o: "db a = Opened" by (cases "db a") simp_all
  show ?thesis
  proof (cases "disk a")
    case None
    with o False show ?thesis
      by (simp add: add_def transaction_def tx_executeSql_def console_log_def)
  next
    case (Some rows)
    with o False show ?thesis by (simp add: add_Some)
  qed
qed

lemma db_onPress_todo [simp]: "db (onPress_todo i a) = db a"
proof (cases "db a")
  case WebStub
  then show ?thesis by (simp add: onPress_todo_def transaction_def)
next
  case Opened
  then show ?thesis
    by (cases "disk a")
       (simp_all add: onPress_todo_Some, simp add: onPress_todo_def transaction_def tx_executeSql_def console_log_def)
qed

lemma db_onPress_done [simp]: "db (onPress_done i a) = db a"
proof (cases "db a")
  case WebStub
  then show ?thesis by (simp add: onPress_done_def transaction_def)
next
  case Opened
  then show ?thesis
    by (cases "disk a")
       (simp_all add: onPress_done_Some, simp add: onPress_done_def transaction_def tx_executeSql_def console_log_def)
qed

lemma db_perform [simp]: "db (perform o' a) = db a"
  by (cases o') simp_all

lemma table_add: "disk a \<noteq> None \<Longrightarrow> disk (add t a) \<noteq> None"
proof (cases "t = JNull \<or> t = JStr [] \<or> db a = WebStub")
  case True
  assume "disk a \<noteq> None"
  with True show ?thesis by (auto simp: add_def transaction_def)
next
  case False
  assume "disk a \<noteq> None"
  then obtain rows where "disk a = Some rows" by auto
  moreover from False have "db a = Opened" by (cases "db a") simp_all
  ultimately show ?thesis using False by (simp add: add_Some)
qed

lemma table_onPress_todo: "disk a \<noteq> None \<Longrightarrow> disk (onPress_todo i a) \<noteq> None"
proof (cases "db a")
  case WebStub
  assume "disk a \<noteq> None"
  with WebStub show ?thesis by (simp add: onPress_todo_def transaction_def)
next
  case Opened
  assume "disk a \<noteq> None"
  then obtain rows where "disk a = Some rows" by auto
  with Opened show ?thesis by (simp add: onPress_todo_Some)
qed

lemma table_onPress_done: "disk a \<noteq> None \<Longrightarrow> disk (onPress_done i a) \<noteq> None"
proof (cases "db a")
  case WebStub
  assume "disk a \<noteq> None"
  with WebStub show ?thesis by (simp add: onPress_done_def transaction_def)
next
  case Opened
  assume "disk a \<noteq> None"
  then obtain rows where "disk a = Some rows" by auto
  with Opened show ?thesis by (simp add: onPress_done_Some)
qed

lemma table_perform: "disk a \<noteq> None \<Longrightarrow> disk (perform o' a) \<noteq> None"
  by (cases o') (simp_all add: table_add table_onPress_todo table_onPress_done)

lemma db_run: "db (run ops empty_store) = Opened"
  by (induction ops rule: rev_induct) (simp_all add: empty_store_eq)

lemma table_run: "disk (run ops empty_store) \<noteq> None"
  by (induction ops rule: rev_induct) (simp_all add: empty_store_eq table_perform)

lemma create_adds_fresh:
  assumes "v \<noteq> JNull" and "v \<noteq> JStr []"
  shows "stored (perform (Create v) (run ops empty_store)) =
      stored (run ops empty_store)
        @ [\<lparr>item_id = next_rowid (stored (run ops empty_store)), item_done = 0,
             item_value = bind_arg v\<rparr>]"
  using assms db_run [of ops] table_run [of ops] by (simp add: stored_add)

lemma other_steps_length:
  assumes "\<forall>v. o' \<noteq> Create v"
  shows "length (stored (perform o' a)) \<le> length (stored a)"
  using assms by (cases o') (simp_all add: stored_onPress_todo stored_onPress_done)

lemma other_steps_ids:
  assumes "\<forall>v. o' \<noteq> Create v"
  shows "item_id ` set (stored (perform o' a)) \<subseteq> item_id ` set (stored a)"
proof
  fix k
  assume "k \<in> item_id ` set (stored (perform o' a))"
  then obtain r' where r': "r' \<in> set (stored (perform o' a))" and k: "k = item_id r'"
    by blast
  show "k \<in> item_id ` set (stored a)"
  proof (rule ccontr)
    assume "k \<notin> item_id ` set (stored a)"
    with r' k have "\<exists>v. o' = Create v"
      using step_new_row [of r' o' a] by simp
    with assms show False by simp
  qed
qed

lemma store_invariant_perform:
  "store_invariant a \<Longrightarrow> o' \<noteq> Create JUndefined \<Longrightarrow> store_invariant (perform o' a)"
  by (simp add: store_invariant_def unique_ids_perform done_is_boolean_perform
      values_nonempty_perform)

lemma dispatch_keeps_invariant:
  assumes "fst st \<noteq> JUndefined" and "store_invariant (snd st)"
  shows "fst (dispatch e st) \<noteq> JUndefined \<and> store_invariant (snd (dispatch e st))"
proof (cases e)
  case (OnChangeText s)
  with assms show ?thesis by (simp add: setText_def)
next
  case OnSubmitEditing
  from assms have "store_invariant (perform (Create (fst st)) (snd st))"
    by (intro store_invariant_perform) simp_all
  with OnSubmitEditing show ?thesis by (simp add: setText_def)
next
  case (OnPressTodo i)
  from assms(2) have "store_invariant (perform (MarkDone i) (snd st))"
    by (intro store_invariant_perform) simp_all
  with OnPressTodo assms(1) show ?thesis by simp
next
  case (OnPressDone i)
  from assms(2) have "store_invariant (perform (Delete i) (snd st))"
    by (intro store_invariant_perform) simp_all
  with OnPressDone assms(1) show ?thesis by simp
qed

lemma interact_snoc [simp]: "interact (evs @ [e]) st = dispatch e (interact evs st)"
  by (simp add: interact_def)

lemma store_invariant_empty_store: "store_invariant empty_store"
  by (simp add: store_invariant_def unique_ids_def done_is_boolean_def values_nonempty_def)

lemma interact_keeps_invariant:
  "fst (interact evs started) \<noteq> JUndefined \<and> store_invariant (snd (interact evs started))"
proof (induction evs rule: rev_induct)
  case Nil
  show ?case by (simp add: interact_def started_def store_invariant_empty_store)
next
  case (snoc e evs)
  then show ?case using dispatch_keeps_invariant [of "interact evs started" e] by simp
qed

section \<open>Creating an item\<close>

text \<open>
  C1. A store state is the contents of the table \<open>items\<close> behind the opened
  database (the table is created at start-up, before any item can be entered). In
  every such state \<open>add\<close> of a non-empty string \<open>v\<close> appends exactly one row, with \<open>done = 0\<close>, the value \<open>v\<close> and an id that no stored row
  has: the table has one row more, the result of the select with \<open>done = 0\<close> is the
  former one with the new row added, the result of the select with \<open>done = 1\<close> is the
  former one, and the two lists on screen are reloaded to these results.
\<close>

theorem add_inserts_one_pending_item:
  assumes "db a = Opened" and "disk a = Some rows" and "v \<noteq> []"
  shows "disk (add (JStr v) a) =
           Some (rows @ [\<lparr>item_id = next_rowid rows, item_done = 0, item_value = SqlText v\<rparr>])
    \<and> next_rowid rows \<notin> item_id ` set rows
    \<and> length (stored (add (JStr v) a)) = length (stored a) + 1
    \<and> executeSql (SelectWhereDone 0) (disk a) =
         Inr (filter (\<lambda>r. item_done r = 0) rows, disk a)
    \<and> executeSql (SelectWhereDone 0) (disk (add (JStr v) a)) =
         Inr (filter (\<lambda>r. item_done r = 0) rows
                @ [\<lparr>item_id = next_rowid rows, item_done = 0, item_value = SqlText v\<rparr>],
              disk (add (JStr v) a))
    \<and> executeSql (SelectWhereDone 1) (disk a) =
         Inr (filter (\<lambda>r. item_done r = 1) rows, disk a)
    \<and> executeSql (SelectWhereDone 1) (disk (add (JStr v) a)) =
         Inr (filter (\<lambda>r. item_done r = 1) rows, disk (add (JStr v) a))
    \<and> todo_items (add (JStr v) a) =
         Some (filter (\<lambda>r. item_done r = 0) rows
                @ [\<lparr>item_id = next_rowid rows, item_done = 0, item_value = SqlText v\<rparr>])
    \<and> done_items (add (JStr v) a) = Some (filter (\<lambda>r. item_done r = 1) rows)"
proof -
  let ?r = "\<lparr>item_id = next_rowid rows, item_done = 0, item_value = SqlText v\<rparr>"
  have d: "disk (add (JStr v) a) = Some (rows @ [?r])"
    using assms by (simp add: add_Some)
  have "todo_items (add (JStr v) a) = Some (filter (\<lambda>r. item_done r = 0) rows @ [?r])"
    and "done_items (add (JStr v) a) = Some (filter (\<lambda>r. item_done r = 1) rows)"
    using assms by (simp_all add: add_Some App_update_Some)
  moreover have "length (stored (add (JStr v) a)) = length (stored a) + 1"
    using assms(2) d by (simp add: stored_def)
  ultimately show ?thesis
    using assms(2) d next_rowid_fresh [of rows] by simp
qed

theorem add_inserts_one_pending_item_witness:
  "db \<lparr>db = Opened, disk = Some [\<lparr>item_id = 1, item_done = 1, item_value = SqlText ''tea''\<rparr>,
                                  \<lparr>item_id = 4, item_done = 0, item_value = SqlText ''jam''\<rparr>],
       todo_items = None, done_items = None, console = []\<rparr> = Opened
   \<and> ''rice'' \<noteq> []
   \<and> disk (add (JStr ''rice'')
        \<lparr>db = Opened, disk = Some [\<lparr>item_id = 1, item_done = 1, item_value = SqlText ''tea''\<rparr>,
                                  \<lparr>item_id = 4, item_done = 0, item_value = SqlText ''jam''\<rparr>],
         todo_items = None, done_items = None, console = []\<rparr>) =
       Some [\<lparr>item_id = 1, item_done = 1, item_value = SqlText ''tea''\<rparr>,
             \<lparr>item_id = 4, item_done = 0, item_value = SqlText ''jam''\<rparr>,
             \<lparr>item_id = 5, item_done = 0, item_value = SqlText ''rice''\<rparr>]
   \<and> todo_items (add (JStr ''rice'')
        \<lparr>db = Opened, disk = Some [\<lparr>item_id = 1, item_done = 1, item_value = SqlText ''tea''\<rparr>,
                                  \<lparr>item_id = 4, item_done = 0, item_value = SqlText ''jam''\<rparr>],
         todo_items = None, done_items = None, console = []\<rparr>) =
       Some [\<lparr>item_id = 4, item_done = 0, item_value = SqlText ''jam''\<rparr>,
             \<lparr>item_id = 5, item_done = 0, item_value = SqlText ''rice''\<rparr>]
   \<and> done_items (add (JStr ''rice'')
        \<lparr>db = Opened, disk = Some [\<lparr>item_id = 1, item_done = 1, item_value = SqlText ''tea''\<rparr>,
                                  \<lparr>item_id = 4, item_done = 0, item_value = SqlText ''jam''\<rparr>],
         todo_items = None, done_items = None, console = []\<rparr>) =
       Some [\<lparr>item_id = 1, item_done = 1, item_value = SqlText ''tea''\<rparr>]"
  using add_inserts_one_pending_item
    [of "\<lparr>db = Opened, disk = Some [\<lparr>item_id = 1, item_done = 1, item_value = SqlText ''tea''\<rparr>,
                                  \<lparr>item_id = 4, item_done = 0, item_value = SqlText ''jam''\<rparr>],
         todo_items = None, done_items = None, console = []\<rparr>"
        "[\<lparr>item_id = 1, item_done = 1, item_value = SqlText ''tea''\<rparr>,
          \<lparr>item_id = 4, item_done = 0, item_value = SqlText ''jam''\<rparr>]" "''rice''"]
  by (simp add: next_rowid_def)

section \<open>Listing the items of one status\<close>

text \<open>
  C2. With the table present, the select of \<open>Items.update\<close> for a status \<open>b\<close> succeeds
  and returns exactly the stored rows whose \<open>done\<close> is \<open>b\<close> (1 for true, 0 for false):
  every returned row has that \<open>done\<close>, every stored row with that \<open>done\<close> is returned,
  nothing else is, and each row comes as often as it is stored; nothing is said about
  their order. The result replaces \<open>state.items\<close> of that component whatever it held,
  the other component and the database are untouched, and a statement executed later
  does not change the list already loaded: it is a snapshot, not a view.
\<close>

theorem select_where_done_exact:
  assumes "db a = Opened" and "disk a = Some rows"
  shows "\<exists>rs. executeSql (SelectWhereDone (if b then 1 else 0)) (disk a) = Inr (rs, disk a)
    \<and> (\<forall>r \<in> set rs. item_done r = (if b then 1 else 0))
    \<and> (\<forall>r \<in> set rows. item_done r = (if b then 1 else 0) \<longrightarrow> r \<in> set rs)
    \<and> set rs \<subseteq> set rows
    \<and> (\<forall>r. count_list rs r = (if item_done r = (if b then 1 else 0) then count_list rows r else 0))
    \<and> (if b then done_items else todo_items) (Items_update b a) = Some rs
    \<and> (if b then todo_items else done_items) (Items_update b a) =
        (if b then todo_items else done_items) a
    \<and> disk (Items_update b a) = disk a
    \<and> (\<forall>s a'. tx_executeSql s (\<lambda>rows a. a) (Items_update b a) = Inr a' \<longrightarrow>
          (if b then done_items else todo_items) a' = Some rs)"
proof -
  let ?k = "if b then 1 else 0 :: int"
  let ?rs = "filter (\<lambda>r. item_done r = ?k) rows"
  have c1: "executeSql (SelectWhereDone ?k) (disk a) = Inr (?rs, disk a)"
    using assms by simp
  have c2: "\<forall>r \<in> set ?rs. item_done r = ?k"
    by simp
  have c3: "\<forall>r \<in> set rows. item_done r = ?k \<longrightarrow> r \<in> set ?rs"
    by simp
  have c4: "set ?rs \<subseteq> set rows"
    by auto
  have c5: "\<forall>r. count_list ?rs r = (if item_done r = ?k then count_list rows r else 0)"
    by (induction rows) auto
  have c6: "(if b then done_items else todo_items) (Items_update b a) = Some ?rs"
    using assms by (simp add: Items_update_Some setItems_def)
  have c7: "(if b then todo_items else done_items) (Items_update b a) =
        (if b then todo_items else done_items) a"
    using assms by (simp add: Items_update_Some setItems_def)
  have c8: "disk (Items_update b a) = disk a"
    by simp
  have c9: "\<forall>s a'. tx_executeSql s (\<lambda>rows a. a) (Items_update b a) = Inr a' \<longrightarrow>
          (if b then done_items else todo_items) a' = Some ?rs"
    using c6 by (auto simp: tx_executeSql_def split: sum.splits prod.splits)
  show ?thesis
    by (rule exI [of _ ?rs]) (intro conjI c1 c2 c3 c4 c5 c6 c7 c8 c9)
qed

theorem select_where_done_exact_witness:
  "db \<lparr>db = Opened, disk = Some [\<lparr>item_id = 1, item_done = 1, item_value = SqlText ''tea''\<rparr>,
                                  \<lparr>item_id = 2, item_done = 0, item_value = SqlText ''jam''\<rparr>,
                                  \<lparr>item_id = 3, item_done = 1, item_value = SqlText ''oil''\<rparr>],
       todo_items = None, done_items = None, console = []\<rparr> = Opened
   \<and> executeSql (SelectWhereDone 1)
        (Some [\<lparr>item_id = 1, item_done = 1, item_value = SqlText ''tea''\<rparr>,
               \<lparr>item_id = 2, item_done = 0, item_value = SqlText ''jam''\<rparr>,
               \<lparr>item_id = 3, item_done = 1, item_value = SqlText ''oil''\<rparr>]) =
       Inr ([\<lparr>item_id = 1, item_done = 1, item_value = SqlText ''tea''\<rparr>,
             \<lparr>item_id = 3, item_done = 1, item_value = SqlText ''oil''\<rparr>],
            Some [\<lparr>item_id = 1, item_done = 1, item_value = SqlText ''tea''\<rparr>,
                  \<lparr>item_id = 2, item_done = 0, item_value = SqlText ''jam''\<rparr>,
                  \<lparr>item_id = 3, item_done = 1, item_value = SqlText ''oil''\<rparr>])
   \<and> done_items (Items_update True
        \<lparr>db = Opened, disk = Some [\<lparr>item_id = 1, item_done = 1, item_value = SqlText ''tea''\<rparr>,
                                  \<lparr>item_id = 2, item_done = 0, item_value = SqlText ''jam''\<rparr>,
                                  \<lparr>item_id = 3, item_done = 1, item_value = SqlText ''oil''\<rparr>],
         todo_items = None, done_items = None, console = []\<rparr>) =
       Some [\<lparr>item_id = 1, item_done = 1, item_value = SqlText ''tea''\<rparr>,
             \<lparr>item_id = 3, item_done = 1, item_value = SqlText ''oil''\<rparr>]"
  using select_where_done_exact
    [of "\<lparr>db = Opened, disk = Some [\<lparr>item_id = 1, item_done = 1, item_value = SqlText ''tea''\<rparr>,
                                  \<lparr>item_id = 2, item_done = 0, item_value = SqlText ''jam''\<rparr>,
                                  \<lparr>item_id = 3, item_done = 1, item_value = SqlText ''oil''\<rparr>],
         todo_items = None, done_items = None, console = []\<rparr>"
        "[\<lparr>item_id = 1, item_done = 1, item_value = SqlText ''tea''\<rparr>,
          \<lparr>item_id = 2, item_done = 0, item_value = SqlText ''jam''\<rparr>,
          \<lparr>item_id = 3, item_done = 1, item_value = SqlText ''oil''\<rparr>]" True]
  by (simp add: Items_update_def transaction_def tx_executeSql_def setItems_def)

section \<open>Marking an item done\<close>

text \<open>
  C3. When the store holds a row \<open>r\<close> with id \<open>i\<close> and \<open>done = 0\<close>, the \<open>onPress\<close> of the
  pending list called with \<open>i\<close> keeps the number, the order, the ids and the values of
  all rows, sets \<open>done = 1\<close> in the rows with id \<open>i\<close> and leaves every row with another
  id as it was. The refresh that follows loads the two lists from the new table: \<open>r\<close>
  with \<open>done = 1\<close> is in the completed list and no row with id \<open>i\<close> is in the pending
  list.
\<close>

theorem markDone_moves_item:
  assumes "db a = Opened" and "disk a = Some rows"
    and "r \<in> set rows" and "item_id r = i" and "item_done r = 0"
  shows "disk (onPress_todo i a) =
           Some (map (\<lambda>x. if item_id x = i then x\<lparr>item_done := 1\<rparr> else x) rows)
    \<and> length (stored (onPress_todo i a)) = length rows
    \<and> (\<forall>k < length rows.
          item_id (stored (onPress_todo i a) ! k) = item_id (rows ! k)
        \<and> item_value (stored (onPress_todo i a) ! k) = item_value (rows ! k)
        \<and> (if item_id (rows ! k) = i then item_done (stored (onPress_todo i a) ! k) = 1
           else stored (onPress_todo i a) ! k = rows ! k))
    \<and> r\<lparr>item_done := 1\<rparr> \<in> set (stored (onPress_todo i a))
    \<and> todo_items (onPress_todo i a) =
         Some (filter (\<lambda>x. item_done x = 0) (stored (onPress_todo i a)))
    \<and> done_items (onPress_todo i a) =
         Some (filter (\<lambda>x. item_done x = 1) (stored (onPress_todo i a)))
    \<and> r\<lparr>item_done := 1\<rparr> \<in> set (filter (\<lambda>x. item_done x = 1) (stored (onPress_todo i a)))
    \<and> (\<forall>x \<in> set (filter (\<lambda>x. item_done x = 0) (stored (onPress_todo i a))). item_id x \<noteq> i)"
proof -
  let ?rows' = "map (\<lambda>x. if item_id x = i then x\<lparr>item_done := 1\<rparr> else x) rows"
  have d: "disk (onPress_todo i a) = Some ?rows'"
    using assms(1,2) by (simp add: onPress_todo_Some)
  then have st: "stored (onPress_todo i a) = ?rows'"
    by (simp add: stored_def)
  have len: "length ?rows' = length rows"
    by simp
  have pos: "\<forall>k < length rows.
          item_id (?rows' ! k) = item_id (rows ! k)
        \<and> item_value (?rows' ! k) = item_value (rows ! k)
        \<and> (if item_id (rows ! k) = i then item_done (?rows' ! k) = 1
           else ?rows' ! k = rows ! k)"
    by simp
  have "(\<lambda>x. if item_id x = i then x\<lparr>item_done := 1\<rparr> else x) r
      \<in> (\<lambda>x. if item_id x = i then x\<lparr>item_done := 1\<rparr> else x) ` set rows"
    using assms(3) by (rule imageI)
  then have mem: "r\<lparr>item_done := 1\<rparr> \<in> set ?rows'"
    using assms(4) by simp
  have todo: "todo_items (onPress_todo i a) = Some (filter (\<lambda>x. item_done x = 0) ?rows')"
    and dn: "done_items (onPress_todo i a) = Some (filter (\<lambda>x. item_done x = 1) ?rows')"
    using assms(1,2) by (simp_all add: onPress_todo_Some App_update_Some)
  have mem_done: "r\<lparr>item_done := 1\<rparr> \<in> set (filter (\<lambda>x. item_done x = 1) ?rows')"
    using mem by simp
  have not_todo: "\<forall>x \<in> set (filter (\<lambda>x. item_done x = 0) ?rows'). item_id x \<noteq> i"
    by (induction rows) simp_all
  show ?thesis
    unfolding st by (intro conjI d len pos mem todo dn mem_done not_todo)
qed


theorem markDone_moves_item_witness:
  "disk \<lparr>db = Opened, disk = Some [\<lparr>item_id = 1, item_done = 0, item_value = SqlText ''tea''\<rparr>,
                                    \<lparr>item_id = 2, item_done = 0, item_value = SqlText ''jam''\<rparr>],
         todo_items = None, done_items = None, console = []\<rparr> =
     Some [\<lparr>item_id = 1, item_done = 0, item_value = SqlText ''tea''\<rparr>,
           \<lparr>item_id = 2, item_done = 0, item_value = SqlText ''jam''\<rparr>]
   \<and> \<lparr>item_id = 2, item_done = 0, item_value = SqlText ''jam''\<rparr> \<in>
       set [\<lparr>item_id = 1, item_done = 0, item_value = SqlText ''tea''\<rparr>,
            \<lparr>item_id = 2, item_done = 0, item_value = SqlText ''jam''\<rparr>]
   \<and> disk (onPress_todo 2
        \<lparr>db = Opened, disk = Some [\<lparr>item_id = 1, item_done = 0, item_value = SqlText ''tea''\<rparr>,
                                  \<lparr>item_id = 2, item_done = 0, item_value = SqlText ''jam''\<rparr>],
         todo_items = None, done_items = None, console = []\<rparr>) =
       Some [\<lparr>item_id = 1, item_done = 0, item_value = SqlText ''tea''\<rparr>,
             \<lparr>item_id = 2, item_done = 1, item_value = SqlText ''jam''\<rparr>]
   \<and> todo_items (onPress_todo 2
        \<lparr>db = Opened, disk = Some [\<lparr>item_id = 1, item_done = 0, item_value = SqlText ''tea''\<rparr>,
                                  \<lparr>item_id = 2, item_done = 0, item_value = SqlText ''jam''\<rparr>],
         todo_items = None, done_items = None, console = []\<rparr>) =
       Some [\<lparr>item_id = 1, item_done = 0, item_value = SqlText ''tea''\<rparr>]
   \<and> done_items (onPress_todo 2
        \<lparr>db = Opened, disk = Some [\<lparr>item_id = 1, item_done = 0, item_value = SqlText ''tea''\<rparr>,
                                  \<lparr>item_id = 2, item_done = 0, item_value = SqlText ''jam''\<rparr>],
         todo_items = None, done_items = None, console = []\<rparr>) =
       Some [\<lparr>item_id = 2, item_done = 1, item_value = SqlText ''jam''\<rparr>]"
  using markDone_moves_item
    [of "\<lparr>db = Opened, disk = Some [\<lparr>item_id = 1, item_done = 0, item_value = SqlText ''tea''\<rparr>,
                                  \<lparr>item_id = 2, item_done = 0, item_value = SqlText ''jam''\<rparr>],
         todo_items = None, done_items = None, console = []\<rparr>"
        "[\<lparr>item_id = 1, item_done = 0, item_value = SqlText ''tea''\<rparr>,
          \<lparr>item_id = 2, item_done = 0, item_value = SqlText ''jam''\<rparr>]"
        "\<lparr>item_id = 2, item_done = 0, item_value = SqlText ''jam''\<rparr>" 2]
  by (simp add: stored_def)

section \<open>Ids that are not in the store\<close>

text \<open>
  C4. When no stored row has the id \<open>i\<close>, both \<open>onPress\<close> handlers called with \<open>i\<close>
  leave the database as it is, so both selects give what they gave before. With the
  table present they do nothing but the refresh: nothing is printed on the console (no
  error is raised or logged), and when the two lists on screen already showed the store
  the whole application state is unchanged.
\<close>

theorem unknown_id_is_noop:
  assumes "i \<notin> item_id ` set (stored a)"
  shows "disk (onPress_todo i a) = disk a \<and> disk (onPress_done i a) = disk a
    \<and> executeSql (SelectWhereDone 0) (disk (onPress_todo i a)) =
        executeSql (SelectWhereDone 0) (disk a)
    \<and> executeSql (SelectWhereDone 1) (disk (onPress_todo i a)) =
        executeSql (SelectWhereDone 1) (disk a)
    \<and> executeSql (SelectWhereDone 0) (disk (onPress_done i a)) =
        executeSql (SelectWhereDone 0) (disk a)
    \<and> executeSql (SelectWhereDone 1) (disk (onPress_done i a)) =
        executeSql (SelectWhereDone 1) (disk a)
    \<and> (disk a \<noteq> None \<longrightarrow>
          onPress_todo i a = App_update a \<and> onPress_done i a = App_update a
        \<and> console (onPress_todo i a) = console a \<and> console (onPress_done i a) = console a)
    \<and> (disk a \<noteq> None
        \<and> todo_items a = Some (filter (\<lambda>r. item_done r = 0) (stored a))
        \<and> done_items a = Some (filter (\<lambda>r. item_done r = 1) (stored a))
        \<longrightarrow> onPress_todo i a = a \<and> onPress_done i a = a)"
proof (cases "disk a")
  case None
  have "disk (onPress_todo i a) = disk a"
    using None
    by (cases "db a")
       (simp_all add: onPress_todo_def transaction_def tx_executeSql_def console_log_def)
  moreover have "disk (onPress_done i a) = disk a"
    using None
    by (cases "db a")
       (simp_all add: onPress_done_def transaction_def tx_executeSql_def console_log_def)
  ultimately show ?thesis
    using None by simp
next
  case (Some rows)
  then have absent: "i \<notin> item_id ` set rows"
    using assms by (simp add: stored_def)
  have same_map: "map (\<lambda>r. if item_id r = i then r\<lparr>item_done := 1\<rparr> else r) rows = rows"
    using absent by (induction rows) simp_all
  have same_filter: "filter (\<lambda>r. item_id r \<noteq> i) rows = rows"
    using absent by (induction rows) simp_all
  have todo: "onPress_todo i a = App_update a"
  proof (cases "db a")
    case WebStub
    then show ?thesis by (simp add: onPress_todo_def transaction_def App_update_WebStub)
  next
    case Opened
    then show ?thesis using Some by (simp add: onPress_todo_Some same_map disk_same)
  qed
  have dn: "onPress_done i a = App_update a"
  proof (cases "db a")
    case WebStub
    then show ?thesis by (simp add: onPress_done_def transaction_def App_update_WebStub)
  next
    case Opened
    then show ?thesis using Some by (simp add: onPress_done_Some same_filter disk_same)
  qed
  have sync: "App_update a = a"
    if "todo_items a = Some (filter (\<lambda>r. item_done r = 0) rows)"
      and "done_items a = Some (filter (\<lambda>r. item_done r = 1) rows)"
  proof (cases "db a")
    case WebStub
    then show ?thesis by (simp add: App_update_WebStub)
  next
    case Opened
    then show ?thesis using Some that by (cases a) (simp add: App_update_Some)
  qed
  have st: "stored a = rows"
    using Some by (simp add: stored_def)
  show ?thesis
    using sync by (simp add: todo dn st)
qed

theorem unknown_id_is_noop_witness:
  "7 \<notin> item_id ` set (stored
        \<lparr>db = Opened, disk = Some [\<lparr>item_id = 1, item_done = 0, item_value = SqlText ''tea''\<rparr>,
                                  \<lparr>item_id = 2, item_done = 1, item_value = SqlText ''jam''\<rparr>],
         todo_items = Some [\<lparr>item_id = 1, item_done = 0, item_value = SqlText ''tea''\<rparr>],
         done_items = Some [\<lparr>item_id = 2, item_done = 1, item_value = SqlText ''jam''\<rparr>],
         console = []\<rparr>)
   \<and> onPress_todo 7
        \<lparr>db = Opened, disk = Some [\<lparr>item_id = 1, item_done = 0, item_value = SqlText ''tea''\<rparr>,
                                  \<lparr>item_id = 2, item_done = 1, item_value = SqlText ''jam''\<rparr>],
         todo_items = Some [\<lparr>item_id = 1, item_done = 0, item_value = SqlText ''tea''\<rparr>],
         done_items = Some [\<lparr>item_id = 2, item_done = 1, item_value = SqlText ''jam''\<rparr>],
         console = []\<rparr> =
        \<lparr>db = Opened, disk = Some [\<lparr>item_id = 1, item_done = 0, item_value = SqlText ''tea''\<rparr>,
                                  \<lparr>item_id = 2, item_done = 1, item_value = SqlText ''jam''\<rparr>],
         todo_items = Some [\<lparr>item_id = 1, item_done = 0, item_value = SqlText ''tea''\<rparr>],
         done_items = Some [\<lparr>item_id = 2, item_done = 1, item_value = SqlText ''jam''\<rparr>],
         console = []\<rparr>
   \<and> onPress_done 7
        \<lparr>db = Opened, disk = Some [\<lparr>item_id = 1, item_done = 0, item_value = SqlText ''tea''\<rparr>,
                                  \<lparr>item_id = 2, item_done = 1, item_value = SqlText ''jam''\<rparr>],
         todo_items = Some [\<lparr>item_id = 1, item_done = 0, item_value = SqlText ''tea''\<rparr>],
         done_items = Some [\<lparr>item_id = 2, item_done = 1, item_value = SqlText ''jam''\<rparr>],
         console = []\<rparr> =
        \<lparr>db = Opened, disk = Some [\<lparr>item_id = 1, item_done = 0, item_value = SqlText ''tea''\<rparr>,
                                  \<lparr>item_id = 2, item_done = 1, item_value = SqlText ''jam''\<rparr>],
         todo_items = Some [\<lparr>item_id = 1, item_done = 0, item_value = SqlText ''tea''\<rparr>],
         done_items = Some [\<lparr>item_id = 2, item_done = 1, item_value = SqlText ''jam''\<rparr>],
         console = []\<rparr>"
  using unknown_id_is_noop
    [of 7 "\<lparr>db = Opened, disk = Some [\<lparr>item_id = 1, item_done = 0, item_value = SqlText ''tea''\<rparr>,
                                  \<lparr>item_id = 2, item_done = 1, item_value = SqlText ''jam''\<rparr>],
         todo_items = Some [\<lparr>item_id = 1, item_done = 0, item_value = SqlText ''tea''\<rparr>],
         done_items = Some [\<lparr>item_id = 2, item_done = 1, item_value = SqlText ''jam''\<rparr>],
         console = []\<rparr>"]
  by (simp add: onPress_todo_def onPress_done_def App_update_def Items_update_def setItems_def
      transaction_def tx_executeSql_def stored_def)

section \<open>Values rejected by the guard of add\<close>

text \<open>
  C5. \<open>add\<close> of the empty string, or of \<open>null\<close> (what \<open>this.state.text\<close> holds while no
  value has been typed), is a no-op in every state: it returns before the transaction,
  so no item is inserted and the database, both lists and the console are unchanged.
\<close>

theorem add_null_or_empty_is_noop: "add JNull a = a \<and> add (JStr []) a = a"
  by (simp add: add_def)

section \<open>The done flag\<close>

text \<open>
  C6, as stated, fails in its last part. The id column is not \<open>autoincrement\<close>, so the
  id of a deleted row is assigned again when it was the largest: after create, mark
  done and delete, the store is empty, and the next create brings back an item with the
  id 1 (here with the same value too), pending again.
\<close>

theorem deleted_id_is_assigned_again:
  "stored (run [Create (JStr ''a''), MarkDone 1] empty_store) =
     [\<lparr>item_id = 1, item_done = 1, item_value = SqlText ''a''\<rparr>]
   \<and> stored (run [Create (JStr ''a''), MarkDone 1, Delete 1] empty_store) = []
   \<and> stored (run [Create (JStr ''a''), MarkDone 1, Delete 1, Create (JStr ''a'')] empty_store) =
     [\<lparr>item_id = 1, item_done = 0, item_value = SqlText ''a''\<rparr>]"
  by (simp add: run_def empty_store_eq add_def onPress_todo_def onPress_done_def App_update_def
      Items_update_def setItems_def transaction_def tx_executeSql_def console_log_def
      next_rowid_def stored_def)

text \<open>
  C6, amended. In every state reachable from the empty store and for every operation
  (create, listByStatus, markDone, delete): a stored item with \<open>done = 1\<close> that is still
  stored after the operation still has \<open>done = 1\<close>; a row whose id was not in the store
  before the operation comes from a create and has \<open>done = 0\<close>; a create whose value
  passes the guard appends exactly one row, with \<open>done = 0\<close> and an id that no stored
  row holds, and a create of \<open>null\<close> or of the empty string adds none; an operation
  other than create adds no row and no id; and the ids stay unique. What does not hold
  is that an id, once deleted, never comes back.
\<close>

theorem done_flag_one_way_per_step:
  "(\<forall>r \<in> set (stored (run ops empty_store)).
      \<forall>r' \<in> set (stored (perform o' (run ops empty_store))).
        item_id r' = item_id r \<and> item_done r = 1 \<longrightarrow> item_done r' = 1)
   \<and> (\<forall>r' \<in> set (stored (perform o' (run ops empty_store))).
        item_id r' \<notin> item_id ` set (stored (run ops empty_store)) \<longrightarrow>
          (\<exists>v. o' = Create v) \<and> item_done r' = 0)
   \<and> (\<forall>v. v \<noteq> JNull \<and> v \<noteq> JStr [] \<longrightarrow>
        stored (perform (Create v) (run ops empty_store)) =
          stored (run ops empty_store)
            @ [\<lparr>item_id = next_rowid (stored (run ops empty_store)), item_done = 0,
                 item_value = bind_arg v\<rparr>])
   \<and> next_rowid (stored (run ops empty_store)) \<notin> item_id ` set (stored (run ops empty_store))
   \<and> stored (perform (Create JNull) (run ops empty_store)) = stored (run ops empty_store)
   \<and> stored (perform (Create (JStr [])) (run ops empty_store)) = stored (run ops empty_store)
   \<and> ((\<forall>v. o' \<noteq> Create v) \<longrightarrow>
        length (stored (perform o' (run ops empty_store))) \<le> length (stored (run ops empty_store))
      \<and> item_id ` set (stored (perform o' (run ops empty_store)))
          \<subseteq> item_id ` set (stored (run ops empty_store)))
   \<and> unique_ids (perform o' (run ops empty_store))"
proof -
  let ?s = "run ops empty_store"
  have keep: "\<forall>r \<in> set (stored ?s). \<forall>r' \<in> set (stored (perform o' ?s)).
        item_id r' = item_id r \<and> item_done r = 1 \<longrightarrow> item_done r' = 1"
    using step_keeps_done [OF unique_ids_run] by blast
  have new: "\<forall>r' \<in> set (stored (perform o' ?s)).
        item_id r' \<notin> item_id ` set (stored ?s) \<longrightarrow> (\<exists>v. o' = Create v) \<and> item_done r' = 0"
    using step_new_row by blast
  have created: "\<forall>v. v \<noteq> JNull \<and> v \<noteq> JStr [] \<longrightarrow>
        stored (perform (Create v) ?s) =
          stored ?s @ [\<lparr>item_id = next_rowid (stored ?s), item_done = 0, item_value = bind_arg v\<rparr>]"
    using create_adds_fresh by blast
  have fresh: "next_rowid (stored ?s) \<notin> item_id ` set (stored ?s)"
    by (rule next_rowid_fresh)
  have rejected: "stored (perform (Create JNull) ?s) = stored ?s"
    "stored (perform (Create (JStr [])) ?s) = stored ?s"
    by (simp_all add: add_def)
  have others: "(\<forall>v. o' \<noteq> Create v) \<longrightarrow>
        length (stored (perform o' ?s)) \<le> length (stored ?s)
      \<and> item_id ` set (stored (perform o' ?s)) \<subseteq> item_id ` set (stored ?s)"
    using other_steps_length other_steps_ids by blast
  have uniq: "unique_ids (perform o' ?s)"
    using unique_ids_run by (rule unique_ids_perform)
  show ?thesis
    by (intro conjI keep new created fresh rejected others uniq)
qed

theorem done_flag_one_way_per_step_witness:
  "stored (run [Create (JStr ''a''), MarkDone 1] empty_store) =
     [\<lparr>item_id = 1, item_done = 1, item_value = SqlText ''a''\<rparr>]
   \<and> JStr ''b'' \<noteq> JNull \<and> JStr ''b'' \<noteq> JStr []
   \<and> stored (perform (Create (JStr ''b'')) (run [Create (JStr ''a''), MarkDone 1] empty_store)) =
     [\<lparr>item_id = 1, item_done = 1, item_value = SqlText ''a''\<rparr>,
      \<lparr>item_id = 2, item_done = 0, item_value = SqlText ''b''\<rparr>]
   \<and> stored (perform (Delete 1) (run [Create (JStr ''a''), MarkDone 1] empty_store)) = []"
proof -
  let ?ops = "[Create (JStr ''a''), MarkDone 1]"
  have before: "stored (run ?ops empty_store) =
      [\<lparr>item_id = 1, item_done = 1, item_value = SqlText ''a''\<rparr>]"
    by (simp add: run_def empty_store_eq add_def onPress_todo_def App_update_def
        Items_update_def setItems_def transaction_def tx_executeSql_def console_log_def
        next_rowid_def stored_def)
  have "stored (perform (Create (JStr ''b'')) (run ?ops empty_store)) =
      stored (run ?ops empty_store)
        @ [\<lparr>item_id = next_rowid (stored (run ?ops empty_store)), item_done = 0,
             item_value = bind_arg (JStr ''b'')\<rparr>]"
    by (rule done_flag_one_way_per_step [of ?ops "Create (JStr ''b'')",
          THEN conjunct2, THEN conjunct2, THEN conjunct1, rule_format]) simp
  then have created: "stored (perform (Create (JStr ''b'')) (run ?ops empty_store)) =
      [\<lparr>item_id = 1, item_done = 1, item_value = SqlText ''a''\<rparr>,
       \<lparr>item_id = 2, item_done = 0, item_value = SqlText ''b''\<rparr>]"
    unfolding before by (simp add: next_rowid_def)
  have deleted: "stored (perform (Delete 1) (run ?ops empty_store)) = []"
    by (simp add: run_def empty_store_eq add_def onPress_todo_def onPress_done_def App_update_def
        Items_update_def setItems_def transaction_def tx_executeSql_def console_log_def
        next_rowid_def stored_def)
  show ?thesis
    using before created deleted by simp
qed

section \<open>The invariant of the store\<close>

text \<open>
  C7. The invariant: no two rows share an id, \<open>done\<close> is 0 or 1, and the value is a
  non-empty text. The values that create receives are those of \<open>this.state.text\<close>, a
  string or \<open>null\<close>. Every operation on such a value, and every markDone, delete and
  listByStatus, preserves the invariant; it holds in every state reached from the empty
  store by a sequence of such operations, and in every state the screen reaches by any
  sequence of its events, each of which preserves it too. Unique ids and \<open>done\<close> in
  \<open>{0, 1}\<close> hold after every sequence of operations.
\<close>

theorem store_invariant_preserved:
  "(store_invariant a \<and> o' \<noteq> Create JUndefined \<longrightarrow> store_invariant (perform o' a))
   \<and> (Create JUndefined \<notin> set ops \<longrightarrow> store_invariant (run ops empty_store))
   \<and> store_invariant (snd (interact evs started))
   \<and> (store_invariant (snd st) \<and> fst st \<noteq> JUndefined \<longrightarrow>
        store_invariant (snd (dispatch e st)) \<and> fst (dispatch e st) \<noteq> JUndefined)
   \<and> unique_ids (run ops empty_store) \<and> done_is_boolean (run ops empty_store)"
  using interact_keeps_invariant [of evs] dispatch_keeps_invariant [of st e]
  by (simp add: store_invariant_def unique_ids_perform done_is_boolean_perform
      values_nonempty_perform unique_ids_run done_is_boolean_run values_nonempty_run)

theorem store_invariant_preserved_witness:
  "Create JUndefined \<notin> set [Create (JStr ''a''), Create (JStr '' ''), MarkDone 1, Delete 2]
   \<and> stored (run [Create (JStr ''a''), Create (JStr '' ''), MarkDone 1, Delete 2] empty_store) =
       [\<lparr>item_id = 1, item_done = 1, item_value = SqlText ''a''\<rparr>]
   \<and> store_invariant (run [Create (JStr ''a''), Create (JStr '' ''), MarkDone 1, Delete 2] empty_store)
   \<and> stored (snd (interact [OnSubmitEditing, OnChangeText ''a'', OnSubmitEditing, OnSubmitEditing,
        OnChangeText [], OnSubmitEditing, OnPressTodo 1] started)) =
       [\<lparr>item_id = 1, item_done = 1, item_value = SqlText ''a''\<rparr>]
   \<and> store_invariant (snd (interact [OnSubmitEditing, OnChangeText ''a'', OnSubmitEditing,
        OnSubmitEditing, OnChangeText [], OnSubmitEditing, OnPressTodo 1] started))"
proof -
  let ?ops = "[Create (JStr ''a''), Create (JStr '' ''), MarkDone 1, Delete 2]"
  let ?evs = "[OnSubmitEditing, OnChangeText ''a'', OnSubmitEditing, OnSubmitEditing,
        OnChangeText [], OnSubmitEditing, OnPressTodo 1]"
  have typed: "Create JUndefined \<notin> set ?ops"
    by simp
  have by_run: "store_invariant (run ?ops empty_store)"
    using typed
    by (rule store_invariant_preserved [of empty_store "Delete 2" ?ops ?evs started OnSubmitEditing,
          THEN conjunct2, THEN conjunct1, rule_format])
  have by_events: "store_invariant (snd (interact ?evs started))"
    by (rule store_invariant_preserved [of empty_store "Delete 2" ?ops ?evs started OnSubmitEditing,
          THEN conjunct2, THEN conjunct2, THEN conjunct1])
  have rows_run: "stored (run ?ops empty_store) =
      [\<lparr>item_id = 1, item_done = 1, item_value = SqlText ''a''\<rparr>]"
    by (simp add: run_def empty_store_eq add_def onPress_todo_def onPress_done_def App_update_def
        Items_update_def setItems_def transaction_def tx_executeSql_def console_log_def
        next_rowid_def stored_def)
  have rows_events: "stored (snd (interact ?evs started)) =
      [\<lparr>item_id = 1, item_done = 1, item_value = SqlText ''a''\<rparr>]"
    by (simp add: interact_def started_def setText_def empty_store_eq add_def onPress_todo_def
        App_update_def Items_update_def setItems_def transaction_def tx_executeSql_def
        console_log_def next_rowid_def stored_def)
  show ?thesis
    by (intro conjI typed by_run by_events rows_run rows_events)
qed

section \<open>Round trip\<close>

text \<open>
  C8. From the empty store, \<open>add\<close> of \<open>buy milk\<close> followed by the select with
  \<open>done = 0\<close> gives exactly one item, whose value is \<open>buy milk\<close> and whose \<open>done\<close> is 0;
  the same list is what the pending component holds after its update.
\<close>

theorem create_then_list_round_trip:
  "disk empty_store = Some []
   \<and> executeSql (SelectWhereDone 0) (disk (add (JStr ''buy milk'') empty_store)) =
       Inr ([\<lparr>item_id = 1, item_done = 0, item_value = SqlText ''buy milk''\<rparr>],
            disk (add (JStr ''buy milk'') empty_store))
   \<and> todo_items (run [Create (JStr ''buy milk''), ListByStatus False] empty_store) =
       Some [\<lparr>item_id = 1, item_done = 0, item_value = SqlText ''buy milk''\<rparr>]"
  by (simp add: run_def empty_store_eq add_def App_update_def Items_update_def setItems_def
      transaction_def tx_executeSql_def console_log_def next_rowid_def)

section \<open>Creating the table\<close>

text \<open>
  C9. \<open>componentDidMount\<close> run twice gives the state that running it once gives. It
  never prints an error and never changes the stored rows; on an opened database the
  table exists afterwards; and when the table already exists it changes nothing at all.
\<close>

theorem componentDidMount_idempotent:
  "componentDidMount (componentDidMount a) = componentDidMount a
   \<and> console (componentDidMount a) = console a
   \<and> stored (componentDidMount a) = stored a
   \<and> (db a = Opened \<longrightarrow> disk (componentDidMount a) = Some (stored a))
   \<and> (disk a \<noteq> None \<longrightarrow> componentDidMount a = a)"
proof (cases "db a")
  case WebStub
  then show ?thesis by (simp add: componentDidMount_def transaction_def)
next
  case Opened
  show ?thesis
  proof (cases "disk a")
    case None
    with Opened show ?thesis
      by (simp add: componentDidMount_def transaction_def tx_executeSql_def stored_def)
  next
    case (Some rows)
    with Opened have "componentDidMount a = a"
      by (simp add: componentDidMount_def transaction_def tx_executeSql_def disk_same)
    then show ?thesis using Some by (simp add: stored_def)
  qed
qed

theorem componentDidMount_idempotent_witness:
  "disk \<lparr>db = Opened, disk = Some [\<lparr>item_id = 1, item_done = 1, item_value = SqlText ''tea''\<rparr>],
         todo_items = None, done_items = None, console = []\<rparr> \<noteq> None
   \<and> componentDidMount
        \<lparr>db = Opened, disk = Some [\<lparr>item_id = 1, item_done = 1, item_value = SqlText ''tea''\<rparr>],
         todo_items = None, done_items = None, console = []\<rparr> =
        \<lparr>db = Opened, disk = Some [\<lparr>item_id = 1, item_done = 1, item_value = SqlText ''tea''\<rparr>],
         todo_items = None, done_items = None, console = []\<rparr>
   \<and> componentDidMount (componentDidMount (launch Native)) =
        \<lparr>db = Opened, disk = Some [], todo_items = None, done_items = None, console = []\<rparr>"
  using componentDidMount_idempotent
    [of "\<lparr>db = Opened, disk = Some [\<lparr>item_id = 1, item_done = 1, item_value = SqlText ''tea''\<rparr>],
         todo_items = None, done_items = None, console = []\<rparr>"]
    componentDidMount_idempotent [of "launch Native"]
  by (simp add: componentDidMount_def transaction_def tx_executeSql_def launch_def
      openDatabase_def)

section \<open>What the guard of add lets through\<close>

text \<open>
  C10. On an opened database with the table present, \<open>add\<close> leaves the state unchanged
  exactly when its argument is \<open>null\<close> or the empty string. Every other argument, a
  string of one blank and \<open>undefined\<close> among them, reaches the insert, which appends a
  row holding that argument as bound by the engine: the string itself, NULL for
  \<open>undefined\<close>.
\<close>

theorem add_guard_exact:
  assumes "db a = Opened" and "disk a = Some rows"
  shows "(add t a = a \<longleftrightarrow> t = JNull \<or> t = JStr [])
    \<and> (t \<noteq> JNull \<and> t \<noteq> JStr [] \<longrightarrow>
         disk (add t a) =
           Some (rows @ [\<lparr>item_id = next_rowid rows, item_done = 0, item_value = bind_arg t\<rparr>]))"
proof (cases "t = JNull \<or> t = JStr []")
  case True
  then show ?thesis by (auto simp: add_def)
next
  case False
  then have d: "disk (add t a) =
      Some (rows @ [\<lparr>item_id = next_rowid rows, item_done = 0, item_value = bind_arg t\<rparr>])"
    using assms by (simp add: add_Some)
  then have "disk (add t a) \<noteq> disk a"
    using assms(2) by simp
  then have "add t a \<noteq> a"
    by auto
  with False d show ?thesis by simp
qed

theorem add_guard_exact_witness:
  "disk empty_store = Some []
   \<and> JStr '' '' \<noteq> JNull \<and> JStr '' '' \<noteq> JStr []
   \<and> disk (add (JStr '' '') empty_store) =
       Some [\<lparr>item_id = 1, item_done = 0, item_value = SqlText '' ''\<rparr>]
   \<and> JUndefined \<noteq> JNull \<and> JUndefined \<noteq> JStr []
   \<and> disk (add JUndefined (add (JStr '' '') empty_store)) =
       Some [\<lparr>item_id = 1, item_done = 0, item_value = SqlText '' ''\<rparr>,
             \<lparr>item_id = 2, item_done = 0, item_value = SqlNull\<rparr>]"
  using add_guard_exact [of empty_store "[]" "JStr '' ''"]
    add_guard_exact [of "add (JStr '' '') empty_store"
      "[\<lparr>item_id = 1, item_done = 0, item_value = SqlText '' ''\<rparr>]" JUndefined]
  by (simp add: empty_store_eq add_def App_update_def Items_update_def setItems_def
      transaction_def tx_executeSql_def console_log_def next_rowid_def)

end
